theory Spec2Isabelle
  imports Complex_Main
begin

section \<open>Meshes\<close>

text \<open>
  A mesh is the object literal the two builders of \<^verbatim>\<open>src/main.js\<close> return: flat
  lists of numbers for positions, normals and colours, and a list of indices.
  JavaScript numbers are modelled as reals: the builders only negate their
  argument and write the literals 0 and 1, so nothing is rounded there.
\<close>

record mesh =
  positions :: "real list"
  normals :: "real list"
  colors :: "real list"
  indices :: "nat list"

definition createBoxMesh :: "real \<Rightarrow> mesh" where
  "createBoxMesh s =
    (let points =
           [[- s, s, s], [- s, - s, s], [s, s, s], [s, - s, s],
            [- s, s, - s], [- s, - s, - s], [s, s, - s], [s, - s, - s]];
         colors0 =
           [[1, 0, 0], [0, 1, 0], [0, 0, 1], [1, 1, 0], [0, 1, 1], [1, 0, 1 :: real]];
         normals0 =
           [[0, 0, 1], [- 1, 0, 0], [0, 0, - 1], [1, 0, 0], [0, 1, 0], [0, - 1, 0 :: real]]
     in \<lparr>positions = concat
            [points ! 0, points ! 1, points ! 2,
             points ! 2, points ! 1, points ! 3,
             points ! 4, points ! 5, points ! 0,
             points ! 0, points ! 5, points ! 1,
             points ! 6, points ! 7, points ! 4,
             points ! 4, points ! 7, points ! 5,
             points ! 2, points ! 3, points ! 6,
             points ! 6, points ! 3, points ! 7,
             points ! 4, points ! 0, points ! 6,
             points ! 6, points ! 0, points ! 2,
             points ! 1, points ! 5, points ! 3,
             points ! 3, points ! 5, points ! 7],
          normals = concat
            [normals0 ! 0, normals0 ! 0, normals0 ! 0,
             normals0 ! 0, normals0 ! 0, normals0 ! 0,
             normals0 ! 1, normals0 ! 1, normals0 ! 1,
             normals0 ! 1, normals0 ! 1, normals0 ! 1,
             normals0 ! 2, normals0 ! 2, normals0 ! 2,
             normals0 ! 2, normals0 ! 2, normals0 ! 2,
             normals0 ! 3, normals0 ! 3, normals0 ! 3,
             normals0 ! 3, normals0 ! 3, normals0 ! 3,
             normals0 ! 4, normals0 ! 4, normals0 ! 4,
             normals0 ! 4, normals0 ! 4, normals0 ! 4,
             normals0 ! 5, normals0 ! 5, normals0 ! 5,
             normals0 ! 5, normals0 ! 5, normals0 ! 5],
          colors = concat
            [colors0 ! 0, colors0 ! 0, colors0 ! 0,
             colors0 ! 0, colors0 ! 0, colors0 ! 0,
             colors0 ! 1, colors0 ! 1, colors0 ! 1,
             colors0 ! 1, colors0 ! 1, colors0 ! 1,
             colors0 ! 2, colors0 ! 2, colors0 ! 2,
             colors0 ! 2, colors0 ! 2, colors0 ! 2,
             colors0 ! 3, colors0 ! 3, colors0 ! 3,
             colors0 ! 3, colors0 ! 3, colors0 ! 3,
             colors0 ! 4, colors0 ! 4, colors0 ! 4,
             colors0 ! 4, colors0 ! 4, colors0 ! 4,
             colors0 ! 5, colors0 ! 5, colors0 ! 5,
             colors0 ! 5, colors0 ! 5, colors0 ! 5],
          indices =
            [0, 1, 2, 3, 4, 5,
             6, 7, 8, 9, 10, 11,
             12, 13, 14, 15, 16, 17,
             18, 19, 20, 21, 22, 23,
             24, 25, 26, 27, 28, 29,
             30, 31, 32, 33, 34, 35]\<rparr>)"

definition createFloorMesh :: "real \<Rightarrow> mesh" where
  "createFloorMesh s =
     \<lparr>positions =
        [- s, 0, - s,
         - s, 0, s,
         s, 0, - s,
         s, 0, s],
      normals =
        [0, 1, 0,
         0, 1, 0,
         0, 1, 0,
         0, 1, 0],
      colors =
        [1, 0, 0,
         0, 1, 0,
         0, 0, 1,
         1, 1, 0],
      indices =
        [0, 1, 2, 3, 2, 1]\<rparr>"

text \<open>
  How the backend reads a mesh: three consecutive numbers are one vertex
  attribute, three consecutive indices are one triangle of a triangle list.
\<close>

fun triplets :: "'a list \<Rightarrow> ('a \<times> 'a \<times> 'a) list" where
  "triplets (x # y # z # rest) = (x, y, z) # triplets rest"
| "triplets rest = []"

type_synonym vec3 = "real \<times> real \<times> real"

definition vertex :: "mesh \<Rightarrow> nat \<Rightarrow> vec3" where
  "vertex m i = triplets (positions m) ! i"

definition triangles :: "mesh \<Rightarrow> (vec3 \<times> vec3 \<times> vec3) list" where
  "triangles m = map (\<lambda>(i, j, k). (vertex m i, vertex m j, vertex m k)) (triplets (indices m))"

fun sub3 :: "vec3 \<Rightarrow> vec3 \<Rightarrow> vec3" where
  "sub3 (x1, y1, z1) (x2, y2, z2) = (x1 - x2, y1 - y2, z1 - z2)"

fun cross3 :: "vec3 \<Rightarrow> vec3 \<Rightarrow> vec3" where
  "cross3 (x1, y1, z1) (x2, y2, z2) = (y1 * z2 - z1 * y2, z1 * x2 - x1 * z2, x1 * y2 - y1 * x2)"

text \<open>The geometric normal of a triangle, from its corners in index order.\<close>

fun face_normal :: "vec3 \<times> vec3 \<times> vec3 \<Rightarrow> vec3" where
  "face_normal (p, q, r) = cross3 (sub3 q p) (sub3 r p)"

text \<open>
  Coverage in the plane of the floor (the XZ plane): a point is covered by a
  triangle when the three edge functions have one sign, as a rasteriser tests it.
\<close>

fun edge_xz :: "vec3 \<Rightarrow> vec3 \<Rightarrow> real \<times> real \<Rightarrow> real" where
  "edge_xz (x1, y1, z1) (x2, y2, z2) (x, z) = (x2 - x1) * (z - z1) - (z2 - z1) * (x - x1)"

fun covers_xz :: "vec3 \<times> vec3 \<times> vec3 \<Rightarrow> real \<times> real \<Rightarrow> bool" where
  "covers_xz (p, q, r) c =
     ((0 \<le> edge_xz p q c \<and> 0 \<le> edge_xz q r c \<and> 0 \<le> edge_xz r p c) \<or>
      (edge_xz p q c \<le> 0 \<and> edge_xz q r c \<le> 0 \<and> edge_xz r p c \<le> 0))"

section \<open>The composite fragment shader\<close>

text \<open>
  \<^verbatim>\<open>fragment_source2\<close> is GLSL text; its \<^verbatim>\<open>main\<close> is modelled as a function of the
  uniforms and of the interpolated texture coordinate, over the reals. The
  texture lookup \<^verbatim>\<open>texture(uSampler, vUV)\<close> is the application of the sampler.
\<close>

datatype vec4 = Vec4 (red: real) (green: real) (blue: real) (alpha: real)

definition fragment_source2 ::
  "(real \<times> real \<Rightarrow> vec4) \<Rightarrow> bool \<Rightarrow> bool \<Rightarrow> real \<Rightarrow> real \<Rightarrow> real \<times> real \<Rightarrow> vec4" where
  "fragment_source2 uSampler uIsSingleChannel uUseLinear uNear uFar vUV =
     (if uIsSingleChannel then
        (let c = red (uSampler vUV);
             c = (if uUseLinear then (2.0 * uNear) / (uFar + uNear - c * (uFar - uNear)) else c)
         in Vec4 c c c 1)
      else uSampler vUV)"

section \<open>The world outside the program\<close>

text \<open>
  The program talks to three things it does not define: the graphics backend
  (\<^verbatim>\<open>gl\<close>) and the statistics overlay (\<^verbatim>\<open>stats\<close>), the matrix library
  (\<^verbatim>\<open>mat4\<close>), and the host (\<^verbatim>\<open>console\<close>, \<^verbatim>\<open>requestAnimationFrame\<close>).

  A matrix is the expression of library calls that produced it; the library's
  arithmetic is not part of this repository.
\<close>

datatype mat4 =
    Mat4_create
  | Mat4_translate mat4 "real list"
  | Mat4_rotateX mat4 real
  | Mat4_rotateY mat4 real
  | Mat4_rotateZ mat4 real
  | Mat4_perspective real real real real
  | Mat4_lookAt "real list" "real list" "real list"

definition radians :: "real \<Rightarrow> real" where
  "radians degrees = pi / 180 * degrees"

text \<open>JavaScript values, as far as \<^verbatim>\<open>options.color\<close> and the uniforms need them.\<close>

datatype js_value =
    JUndefined
  | JNull
  | JBoolean bool
  | JNumber real
  | JString string
  | JArray "real list"

fun truthy :: "js_value \<Rightarrow> bool" where
  "truthy JUndefined = False"
| "truthy JNull = False"
| "truthy (JBoolean b) = b"
| "truthy (JNumber x) = (x \<noteq> 0)"
| "truthy (JString s) = (s \<noteq> [])"
| "truthy (JArray xs) = True"

datatype js_error = JsError string

type_synonym handle = nat
type_synonym ref = nat

datatype gl_enum =
    ARRAY_BUFFER | ELEMENT_ARRAY_BUFFER | STATIC_DRAW | FLOAT | UNSIGNED_INT
  | TRIANGLES | TRIANGLE_STRIP | FRAMEBUFFER
  | COLOR_ATTACHMENT0 | COLOR_ATTACHMENT1 | COLOR_ATTACHMENT2
  | TEXTURE_2D | DEPTH_TEST | CULL_FACE | COLOR_BUFFER_BIT | DEPTH_BUFFER_BIT

datatype typed_array = Float32Array "real list" | Uint32Array "nat list"

datatype uniform_location = UniformLocation handle string

text \<open>
  One constructor for each backend or overlay method the modelled functions
  call, with the arguments of the call.
\<close>

datatype call =
    CreateVertexArray handle
  | CreateBuffer handle
  | BindVertexArray "handle option"
  | BindBuffer gl_enum "handle option"
  | BufferData gl_enum typed_array gl_enum
  | EnableVertexAttribArray nat
  | DisableVertexAttribArray nat
  | VertexAttribPointer nat nat gl_enum bool nat nat
  | VertexAttrib3fv nat js_value
  | GetUniformLocation handle string
  | UniformMatrix4fv uniform_location bool mat4
  | Uniform1i uniform_location js_value
  | Uniform1f uniform_location real
  | DrawElements gl_enum nat gl_enum nat
  | DrawArrays gl_enum nat nat
  | BindFramebuffer gl_enum "handle option"
  | DrawBuffers "gl_enum list"
  | Enable gl_enum
  | Viewport real real real real
  | ClearColor real real real real
  | ClearDepth real
  | Clear "gl_enum list"
  | UseProgram handle
  | BindTexture gl_enum "handle option"
  | StatsBegin
  | StatsEnd

record render_options =
  color :: js_value

record RenderObject =
  options :: render_options
  mesh :: mesh
  mMatrix :: mat4
  vao :: handle
  vbo_position :: handle
  vbo_normal :: handle
  vbo_color :: handle
  ebo :: handle

text \<open>
  The world: the record of the external calls that completed (the call log of
  a mock backend), and the mutable state of the page.

  Whether an external call throws is not decided by the program. \<open>faults\<close> is
  the script of the outcomes of the coming external calls: \<open>None\<close> lets the call
  complete, \<open>Some e\<close> makes it throw \<open>e\<close>, and once the script is used up every
  call completes.
\<close>

record world =
  faults :: "js_error option list"
  calls :: "call list"
  next_handle :: handle
  heap :: "ref \<Rightarrow> RenderObject"
  next_ref :: ref
  vMatrix :: mat4
  pMatrix :: mat4
  console :: "js_error list"
  pending :: "nat list"
  next_request :: nat
  request :: "nat option"

text \<open>
  A statement runs in a world and either completes with a value (\<open>Inr\<close>) or
  throws (\<open>Inl\<close>); either way it leaves a world behind.
\<close>

type_synonym 'a js = "world \<Rightarrow> (js_error + 'a) \<times> world"

definition ret :: "'a \<Rightarrow> 'a js" where
  "ret x w = (Inr x, w)"

definition bind :: "'a js \<Rightarrow> ('a \<Rightarrow> 'b js) \<Rightarrow> 'b js" where
  "bind m f w = (case m w of (Inl e, w') \<Rightarrow> (Inl e, w') | (Inr x, w') \<Rightarrow> f x w')"

primrec seq :: "unit js list \<Rightarrow> unit js" where
  "seq [] = ret ()"
| "seq (m # ms) = bind m (\<lambda>_. seq ms)"

primrec forEach :: "'a list \<Rightarrow> ('a \<Rightarrow> unit js) \<Rightarrow> unit js" where
  "forEach [] f = ret ()"
| "forEach (x # xs) f = bind (f x) (\<lambda>_. forEach xs f)"

definition try_catch :: "unit js \<Rightarrow> (js_error \<Rightarrow> unit js) \<Rightarrow> unit js" where
  "try_catch body handler w =
     (case body w of (Inl e, w') \<Rightarrow> handler e w' | (Inr u, w') \<Rightarrow> (Inr u, w'))"

definition ext :: "call \<Rightarrow> unit js" where
  "ext c w =
     (case faults w of
        [] \<Rightarrow> (Inr (), w\<lparr>calls := calls w @ [c]\<rparr>)
      | None # rest \<Rightarrow> (Inr (), w\<lparr>faults := rest, calls := calls w @ [c]\<rparr>)
      | Some e # rest \<Rightarrow> (Inl e, w\<lparr>faults := rest\<rparr>))"

abbreviation (input) stats :: "call \<Rightarrow> unit js" where
  "stats \<equiv> ext"

abbreviation gl :: "call \<Rightarrow> unit js" where
  "gl \<equiv> ext"

definition fresh_handle :: "handle js" where
  "fresh_handle w = (Inr (next_handle w), w\<lparr>next_handle := Suc (next_handle w)\<rparr>)"

definition gl_createVertexArray :: "handle js" where
  "gl_createVertexArray = bind fresh_handle (\<lambda>h. bind (gl (CreateVertexArray h)) (\<lambda>_. ret h))"

definition gl_createBuffer :: "handle js" where
  "gl_createBuffer = bind fresh_handle (\<lambda>h. bind (gl (CreateBuffer h)) (\<lambda>_. ret h))"

definition gl_getUniformLocation :: "handle \<Rightarrow> string \<Rightarrow> uniform_location js" where
  "gl_getUniformLocation prog name =
     bind (gl (GetUniformLocation prog name)) (\<lambda>_. ret (UniformLocation prog name))"

definition console_error :: "js_error \<Rightarrow> unit js" where
  "console_error err w = (Inr (), w\<lparr>console := console w @ [err]\<rparr>)"

text \<open>
  \<^verbatim>\<open>requestAnimationFrame(loop)\<close>: the only callback the page ever registers is
  \<^verbatim>\<open>loop\<close>, so a registration is its request id.
\<close>

definition requestAnimationFrame :: "nat js" where
  "requestAnimationFrame w =
     (Inr (next_request w),
      w\<lparr>pending := pending w @ [next_request w], next_request := Suc (next_request w)\<rparr>)"

text \<open>The draw target the backend has bound after a sequence of calls.\<close>

primrec bound_after :: "handle option \<Rightarrow> call list \<Rightarrow> handle option" where
  "bound_after b [] = b"
| "bound_after b (c # cs) =
     bound_after (case c of BindFramebuffer t f \<Rightarrow> f | _ \<Rightarrow> b) cs"

definition draw_target :: "call list \<Rightarrow> handle option" where
  "draw_target cs = bound_after None cs"

section \<open>Render objects\<close>

text \<open>
  The constructor of \<^verbatim>\<open>RenderObject\<close>. \<^verbatim>\<open>options\<close> may be missing (\<open>None\<close>);
  \<^verbatim>\<open>{ ...options }\<close> is then the empty object, whose \<^verbatim>\<open>color\<close> reads as
  \<^verbatim>\<open>undefined\<close>. The new object is stored in the heap and its reference returned.
\<close>

definition alloc :: "RenderObject \<Rightarrow> ref js" where
  "alloc obj w =
     (Inr (next_ref w), w\<lparr>heap := (heap w)(next_ref w := obj), next_ref := Suc (next_ref w)\<rparr>)"

definition RenderObject_new :: "mesh \<Rightarrow> render_options option \<Rightarrow> ref js" where
  "RenderObject_new mesh0 options0 =
     (let this_options = (case options0 of None \<Rightarrow> \<lparr>color = JUndefined\<rparr> | Some opts \<Rightarrow> opts);
          this_mesh = mesh0;
          this_mMatrix = Mat4_create
      in
      bind gl_createVertexArray (\<lambda>this_vao.
      bind gl_createBuffer (\<lambda>position.
      bind gl_createBuffer (\<lambda>normal.
      bind gl_createBuffer (\<lambda>color0.
      bind gl_createBuffer (\<lambda>this_ebo.
      bind (seq
        [gl (BindVertexArray (Some this_vao)),

         gl (BindBuffer ARRAY_BUFFER (Some position)),
         gl (BufferData ARRAY_BUFFER (Float32Array (positions this_mesh)) STATIC_DRAW),

         gl (EnableVertexAttribArray 0),
         gl (VertexAttribPointer 0 3 FLOAT False 0 0),

         gl (BindBuffer ARRAY_BUFFER (Some normal)),
         gl (BufferData ARRAY_BUFFER (Float32Array (normals this_mesh)) STATIC_DRAW),

         gl (EnableVertexAttribArray 1),
         gl (VertexAttribPointer 1 3 FLOAT False 0 0),

         (if \<not> truthy (color this_options) then
            seq [gl (BindBuffer ARRAY_BUFFER (Some color0)),
                 gl (BufferData ARRAY_BUFFER (Float32Array (colors this_mesh)) STATIC_DRAW),

                 gl (EnableVertexAttribArray 2),
                 gl (VertexAttribPointer 2 3 FLOAT False 0 0)]
          else
            seq [gl (DisableVertexAttribArray 2),
                 gl (VertexAttrib3fv 2 (color this_options))]),

         gl (BindBuffer ELEMENT_ARRAY_BUFFER (Some this_ebo)),
         gl (BufferData ELEMENT_ARRAY_BUFFER (Uint32Array (indices this_mesh)) STATIC_DRAW),

         gl (BindVertexArray None),

         gl (BindBuffer ARRAY_BUFFER None),
         gl (BindBuffer ELEMENT_ARRAY_BUFFER None)])
      (\<lambda>_. alloc
         \<lparr>options = this_options, mesh = this_mesh, mMatrix = this_mMatrix,
          vao = this_vao, vbo_position = position, vbo_normal = normal,
          vbo_color = color0, ebo = this_ebo\<rparr>)))))))"

text \<open>
  \<^verbatim>\<open>RenderObject.render\<close>; \<open>this\<close> is the reference of the object, and the two
  matrices are passed as the values they hold at the call.
\<close>

definition RenderObject_render :: "ref \<Rightarrow> handle \<Rightarrow> mat4 \<Rightarrow> mat4 \<Rightarrow> unit js" where
  "RenderObject_render this prog vMatrix0 pMatrix0 w =
     (if length (indices (mesh (heap w this))) = 0 then
        ret () w
      else
        seq [bind (gl_getUniformLocation prog ''uMMatrix'')
               (\<lambda>loc. gl (UniformMatrix4fv loc False (mMatrix (heap w this)))),
             bind (gl_getUniformLocation prog ''uVMatrix'')
               (\<lambda>loc. gl (UniformMatrix4fv loc False vMatrix0)),
             bind (gl_getUniformLocation prog ''uPMatrix'')
               (\<lambda>loc. gl (UniformMatrix4fv loc False pMatrix0)),

             gl (BindVertexArray (Some (vao (heap w this)))),
             gl (DrawElements TRIANGLES (length (indices (mesh (heap w this)))) UNSIGNED_INT 0),
             gl (BindVertexArray None)] w)"

section \<open>The offscreen target\<close>

text \<open>
  What \<^verbatim>\<open>createFramebuffer\<close> returns, as far as the frame uses it: the handles of
  the framebuffer and of its four textures. \<^verbatim>\<open>capture\<close> is a closure over the
  framebuffer handle; here it takes the record.
\<close>

record offscreen =
  framebuffer :: handle
  diffuseBuf :: handle
  normalBuf :: handle
  positionBuf :: handle
  depthBuf :: handle

definition capture :: "offscreen \<Rightarrow> unit js \<Rightarrow> unit js" where
  "capture fb0 cb =
     seq [gl (BindFramebuffer FRAMEBUFFER (Some (framebuffer fb0))),
          gl (DrawBuffers [COLOR_ATTACHMENT0, COLOR_ATTACHMENT1, COLOR_ATTACHMENT2]),

          cb,

          gl (BindFramebuffer FRAMEBUFFER None)]"

section \<open>The frame\<close>

text \<open>
  The constants and objects \<^verbatim>\<open>window.onload\<close> sets up and its closures share:
  the two programs, the array of render objects, the floor, the offscreen target.
\<close>

record scene =
  program :: handle
  program2 :: handle
  objects :: "ref list"
  floor_obj :: ref
  fb :: offscreen

definition width :: real where "width = 640"
definition height :: real where "height = 480"
definition aspect :: real where "aspect = width / height"
definition canvas_width :: real where "canvas_width = width"
definition canvas_height :: real where "canvas_height = height"
definition near :: real where "near = 0.8"
definition far :: real where "far = 100.0"

definition set_mMatrix :: "ref \<Rightarrow> (mat4 \<Rightarrow> mat4) \<Rightarrow> unit js" where
  "set_mMatrix object f w =
     (Inr (), w\<lparr>heap := (heap w)(object := (heap w object)\<lparr>mMatrix := f (mMatrix (heap w object))\<rparr>)\<rparr>)"

definition set_pMatrix :: "mat4 \<Rightarrow> unit js" where
  "set_pMatrix m w = (Inr (), w\<lparr>pMatrix := m\<rparr>)"

definition set_vMatrix :: "mat4 \<Rightarrow> unit js" where
  "set_vMatrix m w = (Inr (), w\<lparr>vMatrix := m\<rparr>)"

text \<open>
  The arrow function \<^verbatim>\<open>renderGeometry\<close> passes to \<^verbatim>\<open>objects.forEach\<close>. The test
  \<^verbatim>\<open>object != floor\<close> compares references.
\<close>

definition renderGeometry_object :: "scene \<Rightarrow> ref \<Rightarrow> unit js" where
  "renderGeometry_object sc object =
     seq [(if object \<noteq> floor_obj sc then
             seq [set_mMatrix object (\<lambda>m. Mat4_rotateY m (radians 0.4)),
                  set_mMatrix object (\<lambda>m. Mat4_rotateZ m (radians 0.25)),
                  set_mMatrix object (\<lambda>m. Mat4_rotateX m (radians 0.6))]
           else ret ()),
          (\<lambda>w. RenderObject_render object (program sc) (vMatrix w) (pMatrix w) w)]"

definition renderGeometry :: "scene \<Rightarrow> real \<Rightarrow> real \<Rightarrow> unit js" where
  "renderGeometry sc near0 far0 =
     seq [gl (Enable DEPTH_TEST),
          gl (Enable CULL_FACE),
          gl (Viewport 0 0 canvas_width canvas_height),
          gl (ClearColor 0.1 0.1 0.1 1),
          gl (ClearDepth 1),
          gl (Clear [COLOR_BUFFER_BIT, DEPTH_BUFFER_BIT]),

          set_pMatrix (Mat4_perspective (pi / 180 * 60) aspect near0 far0),
          set_vMatrix (Mat4_lookAt [0, 0.5, 2.2] [0, 0, 0] [0, 1, 0]),

          gl (UseProgram (program sc)),

          forEach (objects sc) (renderGeometry_object sc)]"

definition renderTexture :: "scene \<Rightarrow> handle \<Rightarrow> bool \<Rightarrow> bool \<Rightarrow> unit js" where
  "renderTexture sc texture isSingleChannel useLinear =
     seq [gl (UseProgram (program2 sc)),

          bind (gl_getUniformLocation (program2 sc) ''uSampler'')
            (\<lambda>loc. gl (Uniform1i loc (JNumber 0))),
          bind (gl_getUniformLocation (program2 sc) ''uIsSingleChannel'')
            (\<lambda>loc. gl (Uniform1i loc (JBoolean isSingleChannel))),
          bind (gl_getUniformLocation (program2 sc) ''uUseLinear'')
            (\<lambda>loc. gl (Uniform1i loc (JBoolean useLinear))),
          bind (gl_getUniformLocation (program2 sc) ''uNear'')
            (\<lambda>loc. gl (Uniform1f loc near)),
          bind (gl_getUniformLocation (program2 sc) ''uFar'')
            (\<lambda>loc. gl (Uniform1f loc far)),

          gl (BindTexture TEXTURE_2D (Some texture)),
          gl (DrawArrays TRIANGLE_STRIP 0 4),
          gl (BindTexture TEXTURE_2D None)]"

definition render :: "scene \<Rightarrow> unit js" where
  "render sc =
     (if (0 :: nat) \<noteq> 0 then
        renderGeometry sc near far
      else
        (let w = (width / 4) / 2;
             h = w * (height / width)
         in
         seq [capture (fb sc) (renderGeometry sc near far),

              gl (Viewport 0 0 canvas_width canvas_height),
              gl (Enable DEPTH_TEST),
              gl (Enable CULL_FACE),
              gl (ClearColor 0 0 0 1),
              gl (ClearDepth 1),
              gl (Clear [COLOR_BUFFER_BIT, DEPTH_BUFFER_BIT]),

              gl (Viewport (w * 0) (canvas_height - h) w h),
              renderTexture sc (diffuseBuf (fb sc)) False False,

              gl (Viewport (w * 1) (canvas_height - h) w h),
              renderTexture sc (normalBuf (fb sc)) False False,

              gl (Viewport (w * 2) (canvas_height - h) w h),
              renderTexture sc (positionBuf (fb sc)) False False,

              gl (Viewport (w * 3) (canvas_height - h) w h),
              renderTexture sc (depthBuf (fb sc)) True False,

              gl (Viewport 0 0 canvas_width canvas_height),
              renderTexture sc (diffuseBuf (fb sc)) False False]))"

section \<open>The animation loop\<close>

definition set_request :: "nat \<Rightarrow> unit js" where
  "set_request r w = (Inr (), w\<lparr>request := Some r\<rparr>)"

definition loop :: "scene \<Rightarrow> unit js" where
  "loop sc =
     try_catch
       (seq [stats StatsBegin,
             render sc,
             stats StatsEnd,
             bind requestAnimationFrame set_request])
       (\<lambda>err. console_error err)"

text \<open>
  The host: at a display refresh it takes the oldest pending registration and
  runs its callback, which is \<^verbatim>\<open>loop\<close>; with nothing pending nothing runs.
\<close>

definition animation_frame :: "scene \<Rightarrow> world \<Rightarrow> world" where
  "animation_frame sc w =
     (case pending w of
        [] \<Rightarrow> w
      | r # rest \<Rightarrow> snd (loop sc (w\<lparr>pending := rest\<rparr>)))"

definition animation_frames :: "scene \<Rightarrow> nat \<Rightarrow> world \<Rightarrow> world" where
  "animation_frames sc n w = (animation_frame sc ^^ n) w"

section \<open>Observations and sample worlds\<close>

text \<open>A vector that points along +Y.\<close>

definition points_up :: "vec3 \<Rightarrow> bool" where
  "points_up n = (fst n = 0 \<and> 0 < fst (snd n) \<and> snd (snd n) = 0)"

text \<open>The next \<open>n\<close> external calls complete.\<close>

definition completes :: "nat \<Rightarrow> world \<Rightarrow> bool" where
  "completes n w = list_all (\<lambda>f. f = None) (take n (faults w))"

text \<open>The buffer handles a sequence of calls creates, in order.\<close>

primrec created_buffers :: "call list \<Rightarrow> handle list" where
  "created_buffers [] = []"
| "created_buffers (c # cs) =
     (case c of CreateBuffer h \<Rightarrow> h # created_buffers cs | _ \<Rightarrow> created_buffers cs)"

definition binds_framebuffer :: "call \<Rightarrow> bool" where
  "binds_framebuffer c = (case c of BindFramebuffer t f \<Rightarrow> True | _ \<Rightarrow> False)"

text \<open>
  The calls one \<^verbatim>\<open>render\<close> of an object makes when they all complete, and the
  three rotations of a frame.
\<close>

definition render_calls :: "handle \<Rightarrow> RenderObject \<Rightarrow> mat4 \<Rightarrow> mat4 \<Rightarrow> call list" where
  "render_calls prog obj v p =
     (if indices (mesh obj) = [] then []
      else
        [GetUniformLocation prog ''uMMatrix'',
         UniformMatrix4fv (UniformLocation prog ''uMMatrix'') False (mMatrix obj),
         GetUniformLocation prog ''uVMatrix'',
         UniformMatrix4fv (UniformLocation prog ''uVMatrix'') False v,
         GetUniformLocation prog ''uPMatrix'',
         UniformMatrix4fv (UniformLocation prog ''uPMatrix'') False p,
         BindVertexArray (Some (vao obj)),
         DrawElements TRIANGLES (length (indices (mesh obj))) UNSIGNED_INT 0,
         BindVertexArray None])"

definition spin :: "mat4 \<Rightarrow> mat4" where
  "spin m =
     Mat4_rotateX (Mat4_rotateZ (Mat4_rotateY m (pi / 180 * 0.4)) (pi / 180 * 0.25)) (pi / 180 * 0.6)"

text \<open>The heap in which the objects of \<open>os\<close>, the floor apart, have been rotated once.\<close>

definition turned :: "scene \<Rightarrow> ref list \<Rightarrow> (ref \<Rightarrow> RenderObject) \<Rightarrow> ref \<Rightarrow> RenderObject" where
  "turned sc os h r =
     (if r \<in> set os \<and> r \<noteq> floor_obj sc then (h r)\<lparr>mMatrix := spin (mMatrix (h r))\<rparr> else h r)"

text \<open>
  What a sequence of calls draws with \<^verbatim>\<open>drawArrays\<close>: for each such call the
  viewport, the bound texture and the values of the two flags at that moment.
\<close>

record watch =
  seen_viewport :: "real \<times> real \<times> real \<times> real"
  seen_texture :: "handle option"
  seen_single :: js_value
  seen_linear :: js_value

definition watch_start :: watch where
  "watch_start =
     \<lparr>seen_viewport = (0, 0, 0, 0), seen_texture = None,
      seen_single = JUndefined, seen_linear = JUndefined\<rparr>"

primrec texture_draws ::
  "watch \<Rightarrow> call list \<Rightarrow> ((real \<times> real \<times> real \<times> real) \<times> handle option \<times> js_value \<times> js_value) list" where
  "texture_draws st [] = []"
| "texture_draws st (c # cs) =
     (case c of
        Viewport x y w h \<Rightarrow> texture_draws (st\<lparr>seen_viewport := (x, y, w, h)\<rparr>) cs
      | BindTexture t tex \<Rightarrow> texture_draws (st\<lparr>seen_texture := tex\<rparr>) cs
      | Uniform1i loc v \<Rightarrow>
          (case loc of UniformLocation prog name \<Rightarrow>
             if name = ''uIsSingleChannel'' then texture_draws (st\<lparr>seen_single := v\<rparr>) cs
             else if name = ''uUseLinear'' then texture_draws (st\<lparr>seen_linear := v\<rparr>) cs
             else texture_draws st cs)
      | DrawArrays mode first n \<Rightarrow>
          (seen_viewport st, seen_texture st, seen_single st, seen_linear st) # texture_draws st cs
      | _ \<Rightarrow> texture_draws st cs)"

text \<open>
  A statement that leaves the host's side of the world alone (the console, the
  registrations and the \<^verbatim>\<open>request\<close> variable) and that, on a backend whose calls
  complete, returns normally and leaves such a backend.
\<close>

definition host_kept :: "world \<Rightarrow> world \<Rightarrow> bool" where
  "host_kept w w' =
     (pending w' = pending w \<and> next_request w' = next_request w \<and>
      console w' = console w \<and> request w' = request w)"

definition quiet :: "world \<Rightarrow> bool" where
  "quiet w = (faults w = [])"

definition returned :: "(js_error + 'a) \<Rightarrow> bool" where
  "returned r = (case r of Inl e \<Rightarrow> False | Inr x \<Rightarrow> True)"

definition tame :: "'a js \<Rightarrow> bool" where
  "tame m = (\<forall>w. host_kept w (snd (m w)) \<and>
                 (if quiet w then returned (fst (m w)) \<and> quiet (snd (m w)) else True))"

text \<open>
  The page before \<^verbatim>\<open>window.onload\<close> has built anything, on a backend whose
  calls all complete; and the page after \<^verbatim>\<open>onload\<close> has built the floor and the
  first box (the six boxes of random size and place are left out).
\<close>

definition no_object :: RenderObject where
  "no_object =
     \<lparr>options = \<lparr>color = JUndefined\<rparr>,
      mesh = \<lparr>positions = [], normals = [], colors = [], indices = []\<rparr>,
      mMatrix = Mat4_create, vao = 0, vbo_position = 0, vbo_normal = 0, vbo_color = 0, ebo = 0\<rparr>"

definition page_start :: world where
  "page_start =
     \<lparr>faults = [], calls = [], next_handle = 0, heap = (\<lambda>r. no_object), next_ref = 0,
      vMatrix = Mat4_create, pMatrix = Mat4_create, console = [], pending = [],
      next_request = 0, request = None\<rparr>"

definition sample_fb :: offscreen where
  "sample_fb =
     \<lparr>framebuffer = 30, diffuseBuf = 31, normalBuf = 32, positionBuf = 33, depthBuf = 34\<rparr>"

definition sample_scene :: scene where
  "sample_scene = \<lparr>program = 20, program2 = 21, objects = [0, 1], floor_obj = 0, fb = sample_fb\<rparr>"

definition sample_world :: world where
  "sample_world =
     snd (bind (RenderObject_new (createFloorMesh 1.8) (Some \<lparr>color = JArray [0.6, 0.6, 0.6]\<rparr>))
           (\<lambda>floor0. bind (set_mMatrix floor0 (\<lambda>m. Mat4_translate m [0, - 0.5, 0]))
           (\<lambda>_. bind (RenderObject_new (createBoxMesh 0.4) None)
           (\<lambda>box. set_mMatrix box (\<lambda>m. Mat4_translate m [0, - 0.1, 0])))) page_start)"

text \<open>
  The sample page after \<^verbatim>\<open>onload\<close> has registered \<^verbatim>\<open>loop\<close> for the first time, and
  the same page on a backend whose sixth call from now throws.
\<close>

definition running_world :: world where
  "running_world = sample_world\<lparr>pending := [0], next_request := 1, request := Some 0\<rparr>"

definition failing_world :: world where
  "failing_world =
     running_world\<lparr>faults := [None, None, None, None, None, Some (JsError ''context lost'')]\<rparr>"

section \<open>Running statements\<close>

lemma ext_quiet: "faults w = [] \<Longrightarrow> ext c w = (Inr (), w\<lparr>calls := calls w @ [c]\<rparr>)"
  by (simp add: ext_def)

lemma ext_completes:
  "completes (Suc n) w \<Longrightarrow>
   ext c w = (Inr (), w\<lparr>faults := tl (faults w), calls := calls w @ [c]\<rparr>)"
  by (cases "faults w") (auto simp add: ext_def completes_def split: option.splits)

lemma completes_tl: "completes (Suc n) w \<Longrightarrow> completes n (w\<lparr>faults := tl (faults w), calls := cs\<rparr>)"
  by (cases "faults w") (auto simp add: completes_def)

lemmas run_simps = bind_def ret_def ext_quiet fresh_handle_def gl_createBuffer_def
  gl_createVertexArray_def gl_getUniformLocation_def alloc_def

lemma bound_after_append: "bound_after b (xs @ ys) = bound_after (bound_after b xs) ys"
  by (induction xs arbitrary: b) simp_all

lemma bound_after_unbound: "\<not> list_ex binds_framebuffer cs \<Longrightarrow> bound_after b cs = b"
  by (induction cs arbitrary: b) (auto simp add: binds_framebuffer_def split: call.splits)

lemma RenderObject_render_empty:
  "indices (mesh (heap w this)) = [] \<Longrightarrow> RenderObject_render this prog v p w = (Inr (), w)"
  by (simp add: RenderObject_render_def ret_def)

lemma RenderObject_render_draws:
  "faults w = [] \<Longrightarrow> indices (mesh (heap w this)) \<noteq> [] \<Longrightarrow>
   RenderObject_render this prog v p w =
     (Inr (), w\<lparr>calls := calls w @
        [GetUniformLocation prog ''uMMatrix'',
         UniformMatrix4fv (UniformLocation prog ''uMMatrix'') False (mMatrix (heap w this)),
         GetUniformLocation prog ''uVMatrix'',
         UniformMatrix4fv (UniformLocation prog ''uVMatrix'') False v,
         GetUniformLocation prog ''uPMatrix'',
         UniformMatrix4fv (UniformLocation prog ''uPMatrix'') False p,
         BindVertexArray (Some (vao (heap w this))),
         DrawElements TRIANGLES (length (indices (mesh (heap w this)))) UNSIGNED_INT 0,
         BindVertexArray None]\<rparr>)"
  by (simp add: RenderObject_render_def run_simps)

lemma RenderObject_new_quiet:
  assumes "faults w = []"
  shows "RenderObject_new m opts w =
    (let h = next_handle w;
         this_options = (case opts of None \<Rightarrow> \<lparr>color = JUndefined\<rparr> | Some x \<Rightarrow> x) in
     (Inr (next_ref w),
      w\<lparr>calls := calls w @
          [CreateVertexArray h, CreateBuffer (h + 1), CreateBuffer (h + 2),
           CreateBuffer (h + 3), CreateBuffer (h + 4),
           BindVertexArray (Some h),
           BindBuffer ARRAY_BUFFER (Some (h + 1)),
           BufferData ARRAY_BUFFER (Float32Array (positions m)) STATIC_DRAW,
           EnableVertexAttribArray 0,
           VertexAttribPointer 0 3 FLOAT False 0 0,
           BindBuffer ARRAY_BUFFER (Some (h + 2)),
           BufferData ARRAY_BUFFER (Float32Array (normals m)) STATIC_DRAW,
           EnableVertexAttribArray 1,
           VertexAttribPointer 1 3 FLOAT False 0 0] @
          (if truthy (color this_options) then
             [DisableVertexAttribArray 2,
              VertexAttrib3fv 2 (color this_options)]
           else
             [BindBuffer ARRAY_BUFFER (Some (h + 3)),
              BufferData ARRAY_BUFFER (Float32Array (colors m)) STATIC_DRAW,
              EnableVertexAttribArray 2,
              VertexAttribPointer 2 3 FLOAT False 0 0]) @
          [BindBuffer ELEMENT_ARRAY_BUFFER (Some (h + 4)),
           BufferData ELEMENT_ARRAY_BUFFER (Uint32Array (indices m)) STATIC_DRAW,
           BindVertexArray None,
           BindBuffer ARRAY_BUFFER None,
           BindBuffer ELEMENT_ARRAY_BUFFER None],
         next_handle := h + 5,
         heap := (heap w)(next_ref w :=
           \<lparr>options = this_options, mesh = m, mMatrix = Mat4_create, vao = h,
            vbo_position = h + 1, vbo_normal = h + 2, vbo_color = h + 3, ebo = h + 4\<rparr>),
         next_ref := Suc (next_ref w)\<rparr>))"
  using assms by (simp add: RenderObject_new_def run_simps Let_def eval_nat_numeral)

lemma sample_world_fields:
  "faults sample_world = []"
  "next_handle sample_world = 10"
  "heap sample_world =
     (\<lambda>r. no_object)
       (0 := \<lparr>options = \<lparr>color = JArray [0.6, 0.6, 0.6]\<rparr>, mesh = createFloorMesh 1.8,
               mMatrix = Mat4_translate Mat4_create [0, - 0.5, 0],
               vao = 0, vbo_position = 1, vbo_normal = 2, vbo_color = 3, ebo = 4\<rparr>,
        1 := \<lparr>options = \<lparr>color = JUndefined\<rparr>, mesh = createBoxMesh 0.4,
               mMatrix = Mat4_translate Mat4_create [0, - 0.1, 0],
               vao = 5, vbo_position = 6, vbo_normal = 7, vbo_color = 8, ebo = 9\<rparr>)"
  "next_ref sample_world = 2"
  "vMatrix sample_world = Mat4_create"
  "pMatrix sample_world = Mat4_create"
  "console sample_world = []"
  "pending sample_world = []"
  "next_request sample_world = 0"
  "request sample_world = None"
  by (simp_all add: sample_world_def bind_def RenderObject_new_quiet page_start_def Let_def
        set_mMatrix_def numeral_2_eq_2)

lemma box_indices: "indices (createBoxMesh s) = [0..<36]"
  by (simp add: createBoxMesh_def upt_rec)

section \<open>Statements that leave the host alone\<close>

lemma host_kept_trans: "host_kept w w' \<Longrightarrow> host_kept w' w'' \<Longrightarrow> host_kept w w''"
  by (simp add: host_kept_def)

lemma tameD:
  assumes "tame m" and "m w = (r, w')"
  shows "host_kept w w'" and "quiet w \<Longrightarrow> returned r \<and> quiet w'"
proof -
  from assms(1) have "host_kept w (snd (m w)) \<and>
      (if quiet w then returned (fst (m w)) \<and> quiet (snd (m w)) else True)"
    unfolding tame_def by (rule spec)
  with assms(2) show "host_kept w w'" and "quiet w \<Longrightarrow> returned r \<and> quiet w'"
    by simp_all
qed

lemma tameI:
  assumes "\<And>w r w'. m w = (r, w') \<Longrightarrow> host_kept w w' \<and> (quiet w \<longrightarrow> returned r \<and> quiet w')"
  shows "tame m"
  unfolding tame_def
proof
  fix w
  obtain r w' where run: "m w = (r, w')" by (cases "m w")
  from assms [OF run] run
  show "host_kept w (snd (m w)) \<and>
      (if quiet w then returned (fst (m w)) \<and> quiet (snd (m w)) else True)"
    by simp
qed

lemma tame_ret: "tame (ret x)"
  by (rule tameI) (auto simp add: ret_def host_kept_def returned_def)

lemma tame_ext: "tame (ext c)"
  by (rule tameI)
    (auto simp add: ext_def host_kept_def returned_def quiet_def split: list.splits option.splits)

lemma tame_bind:
  assumes "tame m" and "\<And>x. tame (f x)"
  shows "tame (bind m f)"
proof (rule tameI)
  fix w r w''
  assume run: "bind m f w = (r, w'')"
  obtain r1 w1 where first: "m w = (r1, w1)" by (cases "m w")
  note m = tameD [OF assms(1) first]
  show "host_kept w w'' \<and> (quiet w \<longrightarrow> returned r \<and> quiet w'')"
  proof (cases r1)
    case (Inl e)
    with run first have "r = Inl e" "w'' = w1" by (simp_all add: bind_def)
    with m Inl show ?thesis by (auto simp add: returned_def)
  next
    case (Inr x)
    with run first have second: "f x w1 = (r, w'')" by (simp add: bind_def)
    note f = tameD [OF assms(2) second]
    from m f show ?thesis by (auto intro: host_kept_trans)
  qed
qed

lemma tame_seq_Nil: "tame (seq [])"
  by (simp add: tame_ret)

lemma tame_seq_Cons: "tame m \<Longrightarrow> tame (seq ms) \<Longrightarrow> tame (seq (m # ms))"
  by (simp add: tame_bind)

lemma tame_if: "tame m \<Longrightarrow> tame n \<Longrightarrow> tame (if c then m else n)"
  by simp

lemma tame_forEach: "(\<And>x. tame (f x)) \<Longrightarrow> tame (forEach xs f)"
  by (induction xs) (simp_all add: tame_ret tame_bind)

lemma tame_set_mMatrix: "tame (set_mMatrix r f)"
  by (simp add: tame_def set_mMatrix_def host_kept_def returned_def quiet_def)

lemma tame_set_pMatrix: "tame (set_pMatrix m)"
  by (simp add: tame_def set_pMatrix_def host_kept_def returned_def quiet_def)

lemma tame_set_vMatrix: "tame (set_vMatrix m)"
  by (simp add: tame_def set_vMatrix_def host_kept_def returned_def quiet_def)

lemma tame_getUniformLocation: "tame (gl_getUniformLocation p n)"
  unfolding gl_getUniformLocation_def by (intro tame_bind tame_ext tame_ret)

lemma tame_depends: "(\<And>w0. tame (g w0)) \<Longrightarrow> tame (\<lambda>w. g w w)"
  by (simp add: tame_def)

lemmas tame_intros = tame_ret tame_ext tame_bind tame_seq_Nil tame_seq_Cons tame_if tame_forEach
  tame_set_mMatrix tame_set_pMatrix tame_set_vMatrix tame_getUniformLocation

lemma tame_RenderObject_render: "tame (\<lambda>w. RenderObject_render r p (vMatrix w) (pMatrix w) w)"
proof -
  let ?g = "\<lambda>w0. if length (indices (mesh (heap w0 r))) = 0 then ret ()
      else seq [bind (gl_getUniformLocation p ''uMMatrix'')
                  (\<lambda>loc. gl (UniformMatrix4fv loc False (mMatrix (heap w0 r)))),
                bind (gl_getUniformLocation p ''uVMatrix'')
                  (\<lambda>loc. gl (UniformMatrix4fv loc False (vMatrix w0))),
                bind (gl_getUniformLocation p ''uPMatrix'')
                  (\<lambda>loc. gl (UniformMatrix4fv loc False (pMatrix w0))),
                gl (BindVertexArray (Some (vao (heap w0 r)))),
                gl (DrawElements TRIANGLES (length (indices (mesh (heap w0 r)))) UNSIGNED_INT 0),
                gl (BindVertexArray None)]"
  have "tame (?g w0)" for w0
    by (intro tame_intros)
  then have "tame (\<lambda>w. ?g w w)"
    by (rule tame_depends [of ?g])
  moreover have "(\<lambda>w. ?g w w) = (\<lambda>w. RenderObject_render r p (vMatrix w) (pMatrix w) w)"
    by (rule ext) (simp only: RenderObject_render_def if_distrib [of "\<lambda>f. f w" for w])
  ultimately show ?thesis by simp
qed

lemma tame_renderGeometry_object: "tame (renderGeometry_object sc r)"
  unfolding renderGeometry_object_def
  by (intro tame_intros tame_RenderObject_render)

lemma tame_renderGeometry: "tame (renderGeometry sc n f)"
  unfolding renderGeometry_def
  by (intro tame_intros tame_renderGeometry_object)

lemma tame_capture: "tame cb \<Longrightarrow> tame (capture fb0 cb)"
  unfolding capture_def
  by (intro tame_intros)

lemma tame_renderTexture: "tame (renderTexture sc t a b)"
  unfolding renderTexture_def
  by (intro tame_intros)

lemma tame_render: "tame (render sc)"
  unfolding render_def Let_def
  by (intro tame_intros tame_capture tame_renderGeometry tame_renderTexture)

section \<open>The frame, call by call\<close>

lemma turned_Nil: "turned sc [] h = h"
  by (rule ext) (simp add: turned_def)

lemma turned_Cons:
  "x \<notin> set xs \<Longrightarrow> turned sc xs (turned sc [x] h) = turned sc (x # xs) h"
  by (rule ext) (auto simp add: turned_def)

lemma turned_head: "turned sc [x] h x = turned sc (x # xs) h x"
  by (simp add: turned_def)

lemma turned_one:
  "turned sc [x] h = (if x \<noteq> floor_obj sc then h(x := (h x)\<lparr>mMatrix := spin (mMatrix (h x))\<rparr>) else h)"
  by (rule ext) (simp add: turned_def)

lemma RenderObject_render_quiet:
  "faults w = [] \<Longrightarrow>
   RenderObject_render r prog v p w = (Inr (), w\<lparr>calls := calls w @ render_calls prog (heap w r) v p\<rparr>)"
  by (cases "indices (mesh (heap w r)) = []")
    (simp_all add: RenderObject_render_empty RenderObject_render_draws render_calls_def)

lemma renderGeometry_object_quiet:
  assumes "faults w = []"
  shows "renderGeometry_object sc x w =
    (Inr (), w\<lparr>calls := calls w @
                  render_calls (program sc) (turned sc [x] (heap w) x) (vMatrix w) (pMatrix w),
                heap := turned sc [x] (heap w)\<rparr>)"
  using assms
  by (simp add: renderGeometry_object_def bind_def ret_def set_mMatrix_def spin_def radians_def
      RenderObject_render_quiet turned_one)

lemma forEach_quiet:
  assumes "faults w = []" and "distinct os"
  shows "forEach os (renderGeometry_object sc) w =
    (Inr (), w\<lparr>calls := calls w @
                  concat (map (\<lambda>r. render_calls (program sc) (turned sc os (heap w) r)
                                      (vMatrix w) (pMatrix w)) os),
                heap := turned sc os (heap w)\<rparr>)"
  using assms
proof (induction os arbitrary: w)
  case Nil
  then show ?case by (simp add: ret_def turned_Nil)
next
  case (Cons x xs)
  let ?w1 = "w\<lparr>calls := calls w @
                  render_calls (program sc) (turned sc [x] (heap w) x) (vMatrix w) (pMatrix w),
                heap := turned sc [x] (heap w)\<rparr>"
  from Cons.prems have fresh: "x \<notin> set xs" and rest: "distinct xs" by simp_all
  have first: "renderGeometry_object sc x w = (Inr (), ?w1)"
    using Cons.prems(1) by (rule renderGeometry_object_quiet)
  have "faults ?w1 = []" using Cons.prems(1) by simp
  from Cons.IH [OF this rest]
  have then_rest: "forEach xs (renderGeometry_object sc) ?w1 =
    (Inr (), ?w1\<lparr>calls := calls ?w1 @
                  concat (map (\<lambda>r. render_calls (program sc) (turned sc xs (heap ?w1) r)
                                      (vMatrix ?w1) (pMatrix ?w1)) xs),
                heap := turned sc xs (heap ?w1)\<rparr>)" .
  have "forEach (x # xs) (renderGeometry_object sc) w = forEach xs (renderGeometry_object sc) ?w1"
    by (simp add: bind_def first)
  also note then_rest
  finally show ?case
    by (simp add: turned_Cons [OF fresh] turned_head [of sc x "heap w" xs])
qed

lemma renderGeometry_quiet:
  assumes "faults w = []" and "distinct (objects sc)"
  shows "renderGeometry sc near0 far0 w =
    (Inr (),
     w\<lparr>calls := calls w @
          [Enable DEPTH_TEST,
           Enable CULL_FACE,
           Viewport 0 0 canvas_width canvas_height,
           ClearColor 0.1 0.1 0.1 1,
           ClearDepth 1,
           Clear [COLOR_BUFFER_BIT, DEPTH_BUFFER_BIT],
           UseProgram (program sc)] @
          concat (map (\<lambda>r. render_calls (program sc) (turned sc (objects sc) (heap w) r)
                    (Mat4_lookAt [0, 0.5, 2.2] [0, 0, 0] [0, 1, 0])
                    (Mat4_perspective (pi / 180 * 60) aspect near0 far0)) (objects sc)),
        heap := turned sc (objects sc) (heap w),
        vMatrix := Mat4_lookAt [0, 0.5, 2.2] [0, 0, 0] [0, 1, 0],
        pMatrix := Mat4_perspective (pi / 180 * 60) aspect near0 far0\<rparr>)"
  using assms
  by (simp add: renderGeometry_def bind_def ret_def ext_quiet set_pMatrix_def set_vMatrix_def
      forEach_quiet)

lemma capture_quiet:
  assumes "faults w = []"
  obtains w1 where "capture (fb sc) (renderGeometry sc near far) w = (Inr (), w1)"
    and "faults w1 = []"
proof -
  obtain r w1 where run: "capture (fb sc) (renderGeometry sc near far) w = (r, w1)"
    by (cases "capture (fb sc) (renderGeometry sc near far) w")
  from tameD(2) [OF tame_capture [OF tame_renderGeometry] run] assms
  have "returned r" and "quiet w1" by (simp_all add: quiet_def)
  with run that show ?thesis
    by (cases r) (simp_all add: returned_def quiet_def)
qed

lemma render_draws:
  assumes "faults w = []"
  shows "fst (render sc w) = Inr () \<and>
    texture_draws watch_start
      (drop (length (calls (snd (capture (fb sc) (renderGeometry sc near far) w))))
         (calls (snd (render sc w)))) =
      [((0, 420, 80, 60), Some (diffuseBuf (fb sc)), JBoolean False, JBoolean False),
       ((80, 420, 80, 60), Some (normalBuf (fb sc)), JBoolean False, JBoolean False),
       ((160, 420, 80, 60), Some (positionBuf (fb sc)), JBoolean False, JBoolean False),
       ((240, 420, 80, 60), Some (depthBuf (fb sc)), JBoolean True, JBoolean False),
       ((0, 0, 640, 480), Some (diffuseBuf (fb sc)), JBoolean False, JBoolean False)]"
proof -
  from assms obtain w1
    where cap: "capture (fb sc) (renderGeometry sc near far) w = (Inr (), w1)"
      and q: "faults w1 = []"
    by (rule capture_quiet)
  show ?thesis
    by (simp add: render_def Let_def bind_def ret_def cap q ext_quiet renderTexture_def
        gl_getUniformLocation_def watch_start_def width_def height_def canvas_width_def
        canvas_height_def)
qed

section \<open>The loop and the host\<close>

lemma loop_body_split:
  "seq [a, b, c, d] w =
     (case seq [a, b, c] w of (Inl e, w') \<Rightarrow> (Inl e, w') | (Inr u, w') \<Rightarrow> d w')"
  by (simp add: bind_def ret_def split: prod.splits sum.splits)

lemma tame_frame: "tame (seq [stats StatsBegin, render sc, stats StatsEnd])"
  by (intro tame_intros tame_render)

lemma loop_caught:
  assumes "seq [stats StatsBegin, render sc, stats StatsEnd] w = (Inl e, w')"
  shows "loop sc w = (Inr (), w'\<lparr>console := console w @ [e]\<rparr>)"
    and "pending w' = pending w"
proof -
  from tameD(1) [OF tame_frame assms] have kept: "host_kept w w'" .
  then show "pending w' = pending w" by (simp add: host_kept_def)
  from kept have "console w' = console w" by (simp add: host_kept_def)
  then show "loop sc w = (Inr (), w'\<lparr>console := console w @ [e]\<rparr>)"
    unfolding loop_def try_catch_def loop_body_split assms
    by (simp add: console_error_def)
qed

lemma loop_rescheduled:
  assumes "seq [stats StatsBegin, render sc, stats StatsEnd] w = (Inr (), w')"
  shows "loop sc w =
    (Inr (), w'\<lparr>pending := pending w @ [next_request w],
                  next_request := Suc (next_request w),
                  request := Some (next_request w)\<rparr>)"
proof -
  from tameD(1) [OF tame_frame assms] have kept: "host_kept w w'" .
  then have "pending w' = pending w" "next_request w' = next_request w"
    by (simp_all add: host_kept_def)
  then show ?thesis
    unfolding loop_def try_catch_def loop_body_split assms
    by (simp add: bind_def requestAnimationFrame_def set_request_def)
qed

lemma idle_frame: "pending w = [] \<Longrightarrow> animation_frame sc w = w"
  by (simp add: animation_frame_def)

lemma idle_frames: "pending w = [] \<Longrightarrow> animation_frames sc n w = w"
  unfolding animation_frames_def
  by (induction n) (simp_all add: idle_frame)

lemma loop_pending:
  "pending (snd (loop sc w)) = pending w \<or>
   pending (snd (loop sc w)) = pending w @ [next_request w]"
proof -
  obtain r w' where run: "seq [stats StatsBegin, render sc, stats StatsEnd] w = (r, w')"
    by (cases "seq [stats StatsBegin, render sc, stats StatsEnd] w")
  show ?thesis
  proof (cases r)
    case (Inl e)
    with run loop_caught [of sc w e w'] show ?thesis by simp
  next
    case (Inr u)
    with run loop_rescheduled [of sc w w'] show ?thesis by simp
  qed
qed

lemma one_registration:
  assumes "length (pending w) \<le> 1"
  shows "length (pending (animation_frame sc w)) \<le> 1"
proof (cases "pending w")
  case Nil
  then show ?thesis by (simp add: idle_frame)
next
  case (Cons r rest)
  with assms have "rest = []" by simp
  with Cons loop_pending [of sc "w\<lparr>pending := []\<rparr>"] show ?thesis
    by (auto simp add: animation_frame_def)
qed

section \<open>The mesh builders\<close>

text \<open>
  C6. For every half-extent, the box builder returns 108 position numbers, 108
  normal numbers and 108 colour numbers, which are 36 triplets each, and 36
  indices; every index is below 36 and the indices are 0, 1, ..., 35 in order.
\<close>

theorem createBoxMesh_counts:
  "length (positions (createBoxMesh s)) = 108 \<and>
   length (triplets (positions (createBoxMesh s))) = 36 \<and>
   length (normals (createBoxMesh s)) = 108 \<and>
   length (triplets (normals (createBoxMesh s))) = 36 \<and>
   length (colors (createBoxMesh s)) = 108 \<and>
   length (triplets (colors (createBoxMesh s))) = 36 \<and>
   length (indices (createBoxMesh s)) = 36 \<and>
   list_all (\<lambda>i. i < 36) (indices (createBoxMesh s)) \<and>
   indices (createBoxMesh s) = [0..<36]"
  by (simp add: createBoxMesh_def upt_rec)

subsection \<open>The winding of the floor\<close>

lemma floor_triangles:
  "triangles (createFloorMesh s) =
     [((- s, 0, - s), (- s, 0, s), (s, 0, - s)), ((s, 0, s), (s, 0, - s), (- s, 0, s))]"
  by (simp add: triangles_def createFloorMesh_def vertex_def)

lemma floor_normals:
  "map face_normal (triangles (createFloorMesh s)) = [(0, 4 * s * s, 0), (0, 4 * s * s, 0)]"
  by (simp add: floor_triangles algebra_simps)

lemma covers_first:
  "covers_xz ((- s, 0, - s), (- s, 0, s), (s, 0, - s)) (x, z) \<longleftrightarrow>
     (0 \<le> (2 * s) * (- (x + s)) \<and> 0 \<le> (2 * s) * (x + z) \<and> 0 \<le> (2 * s) * (- (z + s))) \<or>
     ((2 * s) * (- (x + s)) \<le> 0 \<and> (2 * s) * (x + z) \<le> 0 \<and> (2 * s) * (- (z + s)) \<le> 0)"
proof -
  have a: "edge_xz (- s, 0, - s) (- s, 0, s) (x, z) = (2 * s) * (- (x + s))"
    by (simp add: algebra_simps)
  have b: "edge_xz (- s, 0, s) (s, 0, - s) (x, z) = (2 * s) * (x + z)"
    by (simp add: algebra_simps)
  have c: "edge_xz (s, 0, - s) (- s, 0, - s) (x, z) = (2 * s) * (- (z + s))"
    by (simp add: algebra_simps)
  show ?thesis
    unfolding covers_xz.simps a b c ..
qed

lemma covers_second:
  "covers_xz ((s, 0, s), (s, 0, - s), (- s, 0, s)) (x, z) \<longleftrightarrow>
     (0 \<le> (2 * s) * (x - s) \<and> 0 \<le> (2 * s) * (- (x + z)) \<and> 0 \<le> (2 * s) * (z - s)) \<or>
     ((2 * s) * (x - s) \<le> 0 \<and> (2 * s) * (- (x + z)) \<le> 0 \<and> (2 * s) * (z - s) \<le> 0)"
proof -
  have a: "edge_xz (s, 0, s) (s, 0, - s) (x, z) = (2 * s) * (x - s)"
    by (simp add: algebra_simps)
  have b: "edge_xz (s, 0, - s) (- s, 0, s) (x, z) = (2 * s) * (- (x + z))"
    by (simp add: algebra_simps)
  have c: "edge_xz (- s, 0, s) (s, 0, s) (x, z) = (2 * s) * (z - s)"
    by (simp add: algebra_simps)
  show ?thesis
    unfolding covers_xz.simps a b c ..
qed

lemma covers_first_region:
  "s \<noteq> 0 \<Longrightarrow> covers_xz ((- s, 0, - s), (- s, 0, s), (s, 0, - s)) (x, z) \<longleftrightarrow>
     (if 0 < s then - s \<le> x \<and> - s \<le> z \<and> x + z \<le> 0
      else x \<le> - s \<and> z \<le> - s \<and> 0 \<le> x + z)"
  unfolding covers_first
  by (cases "0 < s") (auto simp add: zero_le_mult_iff mult_le_0_iff)

lemma covers_second_region:
  "s \<noteq> 0 \<Longrightarrow> covers_xz ((s, 0, s), (s, 0, - s), (- s, 0, s)) (x, z) \<longleftrightarrow>
     (if 0 < s then x \<le> s \<and> z \<le> s \<and> 0 \<le> x + z
      else s \<le> x \<and> s \<le> z \<and> x + z \<le> 0)"
  unfolding covers_second
  by (cases "0 < s") (auto simp add: zero_le_mult_iff mult_le_0_iff)

lemma floor_union:
  assumes "s \<noteq> 0"
  shows "(covers_xz ((- s, 0, - s), (- s, 0, s), (s, 0, - s)) (x, z) \<or>
          covers_xz ((s, 0, s), (s, 0, - s), (- s, 0, s)) (x, z)) =
         (\<bar>x\<bar> \<le> \<bar>s\<bar> \<and> \<bar>z\<bar> \<le> \<bar>s\<bar>)"
  unfolding covers_first_region [OF assms] covers_second_region [OF assms]
  by (cases "0 < s") (simp_all, linarith+)

lemma floor_overlap:
  assumes "s \<noteq> 0"
  shows "(covers_xz ((- s, 0, - s), (- s, 0, s), (s, 0, - s)) (x, z) \<and>
          covers_xz ((s, 0, s), (s, 0, - s), (- s, 0, s)) (x, z)) =
         (\<bar>x\<bar> \<le> \<bar>s\<bar> \<and> x + z = 0)"
  unfolding covers_first_region [OF assms] covers_second_region [OF assms]
  by (cases "0 < s") (simp_all, linarith+)

text \<open>
  C3, as stated, at the half-extent 0: all four corners of the floor are the
  origin, both triangles are degenerate and the geometric normal of each is the
  zero vector, which does not point along +Y.
\<close>

theorem floor_winding_zero_counterexample:
  "map face_normal (triangles (createFloorMesh 0)) = [(0, 0, 0), (0, 0, 0)] \<and>
   \<not> list_all points_up (map face_normal (triangles (createFloorMesh 0)))"
  by (simp add: floor_normals points_up_def)

text \<open>
  C3, amended. For every half-extent \<open>s\<close> other than 0, the index order
  0,1,2,3,2,1 of the floor gives the two triangles (0,1,2) and (3,2,1); the
  geometric normal of each, from its corners in index order, is \<open>(0, 4 s\<^sup>2, 0)\<close>
  and points along +Y, so both have the same winding and a face-culling rule
  keeps both or drops both. A point of the floor's plane is covered by one of
  them exactly when it lies in the square of half-extent \<open>|s|\<close>, and by both
  only on the diagonal they share.
\<close>

theorem floor_winding:
  assumes "s \<noteq> 0"
  shows "triplets (indices (createFloorMesh s)) = [(0, 1, 2), (3, 2, 1)] \<and>
         map face_normal (triangles (createFloorMesh s)) = [(0, 4 * s * s, 0), (0, 4 * s * s, 0)] \<and>
         list_all points_up (map face_normal (triangles (createFloorMesh s))) \<and>
         list_ex (\<lambda>t. covers_xz t (x, z)) (triangles (createFloorMesh s)) =
           (\<bar>x\<bar> \<le> \<bar>s\<bar> \<and> \<bar>z\<bar> \<le> \<bar>s\<bar>) \<and>
         list_all (\<lambda>t. covers_xz t (x, z)) (triangles (createFloorMesh s)) =
           (\<bar>x\<bar> \<le> \<bar>s\<bar> \<and> x + z = 0)"
proof -
  have idx: "triplets (indices (createFloorMesh s)) = [(0, 1, 2), (3, 2, 1)]"
    by (simp add: createFloorMesh_def)
  have up: "list_all points_up (map face_normal (triangles (createFloorMesh s)))"
    using assms by (auto simp add: floor_normals points_up_def zero_less_mult_iff)
  have un: "list_ex (\<lambda>t. covers_xz t (x, z)) (triangles (createFloorMesh s)) =
      (\<bar>x\<bar> \<le> \<bar>s\<bar> \<and> \<bar>z\<bar> \<le> \<bar>s\<bar>)"
    using floor_union [OF assms, of x z] by (simp add: floor_triangles del: covers_xz.simps)
  have ov: "list_all (\<lambda>t. covers_xz t (x, z)) (triangles (createFloorMesh s)) =
      (\<bar>x\<bar> \<le> \<bar>s\<bar> \<and> x + z = 0)"
    using floor_overlap [OF assms, of x z] by (simp add: floor_triangles del: covers_xz.simps)
  from idx floor_normals up un ov show ?thesis by blast
qed

theorem floor_winding_witness:
  "(1.8 :: real) \<noteq> 0 \<and>
   map face_normal (triangles (createFloorMesh 1.8)) = [(0, 4 * 1.8 * 1.8, 0), (0, 4 * 1.8 * 1.8, 0)] \<and>
   list_all points_up (map face_normal (triangles (createFloorMesh 1.8))) \<and>
   list_ex (\<lambda>t. covers_xz t (1, - 1.5)) (triangles (createFloorMesh 1.8)) \<and>
   \<not> list_ex (\<lambda>t. covers_xz t (2, 0)) (triangles (createFloorMesh 1.8))"
  using floor_winding [of "1.8" 1 "- 1.5"] floor_winding [of "1.8" 2 0]
  by simp

section \<open>Render objects: construction and drawing\<close>

text \<open>
  C1, as stated, on the page's own floor (the colour option is the array
  0.6, 0.6, 0.6): construction creates four buffers, and the third of them is
  the object's colour buffer, so a colour buffer handle is created. And a
  colour option that is present but falsy (the number 0) takes the buffer path.
\<close>

theorem RenderObject_new_color_counterexample:
  "created_buffers (calls (snd (RenderObject_new (createFloorMesh 1.8)
      (Some \<lparr>color = JArray [0.6, 0.6, 0.6]\<rparr>) page_start))) = [1, 2, 3, 4] \<and>
   vbo_color (heap (snd (RenderObject_new (createFloorMesh 1.8)
      (Some \<lparr>color = JArray [0.6, 0.6, 0.6]\<rparr>) page_start)) 0) = 3 \<and>
   BufferData ARRAY_BUFFER (Float32Array (colors (createFloorMesh 1.8))) STATIC_DRAW
     \<in> set (calls (snd (RenderObject_new (createFloorMesh 1.8) (Some \<lparr>color = JNumber 0\<rparr>) page_start)))"
  by (simp add: RenderObject_new_quiet page_start_def Let_def)

text \<open>
  C1, amended. On a backend whose calls complete, construction always creates
  one vertex array and four buffers, the colour buffer among them (it is the
  object's \<^verbatim>\<open>vbo['color']\<close>). With a colour option that is truthy the colour
  buffer is never bound and never filled: attribute 2 is disabled and the
  constant colour set with \<^verbatim>\<open>vertexAttrib3fv\<close> at location 2. With no options,
  or a colour that is missing or falsy, the colour buffer is bound, filled from
  \<^verbatim>\<open>mesh.colors\<close>, and attribute 2 enabled with a pointer into it.
\<close>

theorem RenderObject_new_color:
  assumes "faults w = []"
  shows "fst (RenderObject_new m opts w) = Inr (next_ref w) \<and>
    vbo_color (heap (snd (RenderObject_new m opts w)) (next_ref w)) = next_handle w + 3 \<and>
    drop (length (calls w)) (calls (snd (RenderObject_new m opts w))) =
      [CreateVertexArray (next_handle w),
       CreateBuffer (next_handle w + 1),
       CreateBuffer (next_handle w + 2),
       CreateBuffer (next_handle w + 3),
       CreateBuffer (next_handle w + 4),
       BindVertexArray (Some (next_handle w)),
       BindBuffer ARRAY_BUFFER (Some (next_handle w + 1)),
       BufferData ARRAY_BUFFER (Float32Array (positions m)) STATIC_DRAW,
       EnableVertexAttribArray 0,
       VertexAttribPointer 0 3 FLOAT False 0 0,
       BindBuffer ARRAY_BUFFER (Some (next_handle w + 2)),
       BufferData ARRAY_BUFFER (Float32Array (normals m)) STATIC_DRAW,
       EnableVertexAttribArray 1,
       VertexAttribPointer 1 3 FLOAT False 0 0] @
      (case opts of
         None \<Rightarrow>
           [BindBuffer ARRAY_BUFFER (Some (next_handle w + 3)),
            BufferData ARRAY_BUFFER (Float32Array (colors m)) STATIC_DRAW,
            EnableVertexAttribArray 2,
            VertexAttribPointer 2 3 FLOAT False 0 0]
       | Some given \<Rightarrow>
           if truthy (color given) then
             [DisableVertexAttribArray 2,
              VertexAttrib3fv 2 (color given)]
           else
             [BindBuffer ARRAY_BUFFER (Some (next_handle w + 3)),
              BufferData ARRAY_BUFFER (Float32Array (colors m)) STATIC_DRAW,
              EnableVertexAttribArray 2,
              VertexAttribPointer 2 3 FLOAT False 0 0]) @
      [BindBuffer ELEMENT_ARRAY_BUFFER (Some (next_handle w + 4)),
       BufferData ELEMENT_ARRAY_BUFFER (Uint32Array (indices m)) STATIC_DRAW,
       BindVertexArray None,
       BindBuffer ARRAY_BUFFER None,
       BindBuffer ELEMENT_ARRAY_BUFFER None]"
  using assms by (cases opts) (simp_all add: RenderObject_new_quiet Let_def)

theorem RenderObject_new_color_witness:
  "faults page_start = [] \<and>
   drop (length (calls page_start))
     (calls (snd (RenderObject_new (createFloorMesh 1.8) (Some \<lparr>color = JArray [0.6, 0.6, 0.6]\<rparr>) page_start))) =
      [CreateVertexArray 0, CreateBuffer 1, CreateBuffer 2, CreateBuffer 3, CreateBuffer 4,
       BindVertexArray (Some 0),
       BindBuffer ARRAY_BUFFER (Some 1),
       BufferData ARRAY_BUFFER (Float32Array (positions (createFloorMesh 1.8))) STATIC_DRAW,
       EnableVertexAttribArray 0,
       VertexAttribPointer 0 3 FLOAT False 0 0,
       BindBuffer ARRAY_BUFFER (Some 2),
       BufferData ARRAY_BUFFER (Float32Array (normals (createFloorMesh 1.8))) STATIC_DRAW,
       EnableVertexAttribArray 1,
       VertexAttribPointer 1 3 FLOAT False 0 0,
       DisableVertexAttribArray 2,
       VertexAttrib3fv 2 (JArray [0.6, 0.6, 0.6]),
       BindBuffer ELEMENT_ARRAY_BUFFER (Some 4),
       BufferData ELEMENT_ARRAY_BUFFER (Uint32Array (indices (createFloorMesh 1.8))) STATIC_DRAW,
       BindVertexArray None,
       BindBuffer ARRAY_BUFFER None,
       BindBuffer ELEMENT_ARRAY_BUFFER None]"
  using RenderObject_new_color [of page_start "createFloorMesh 1.8" "Some \<lparr>color = JArray [0.6, 0.6, 0.6]\<rparr>"]
  by (simp add: page_start_def)

text \<open>
  C7. \<^verbatim>\<open>render\<close> of an object whose index list is empty returns at once: it
  makes no external call at all, whatever the backend would do. Constructing an
  object from a mesh with no indices succeeds, and rendering it then changes
  nothing. With a non-empty index list, on a backend whose calls complete,
  \<^verbatim>\<open>render\<close> looks up \<^verbatim>\<open>uMMatrix\<close>, \<^verbatim>\<open>uVMatrix\<close> and \<^verbatim>\<open>uPMatrix\<close> by name and sets
  each, binds the vertex array, and issues one \<^verbatim>\<open>drawElements\<close> of triangles over
  all the indices with the unsigned 32-bit index type.
\<close>

theorem RenderObject_render_noop:
  "(indices (mesh (heap w this)) = [] \<longrightarrow>
      RenderObject_render this prog v p w = (Inr (), w)) \<and>
   (faults w = [] \<and> indices m = [] \<longrightarrow>
      fst (RenderObject_new m opts w) = Inr (next_ref w) \<and>
      RenderObject_render (next_ref w) prog v p (snd (RenderObject_new m opts w)) =
        (Inr (), snd (RenderObject_new m opts w))) \<and>
   (faults w = [] \<and> indices (mesh (heap w this)) \<noteq> [] \<longrightarrow>
      RenderObject_render this prog v p w =
        (Inr (), w\<lparr>calls := calls w @
           [GetUniformLocation prog ''uMMatrix'',
            UniformMatrix4fv (UniformLocation prog ''uMMatrix'') False (mMatrix (heap w this)),
            GetUniformLocation prog ''uVMatrix'',
            UniformMatrix4fv (UniformLocation prog ''uVMatrix'') False v,
            GetUniformLocation prog ''uPMatrix'',
            UniformMatrix4fv (UniformLocation prog ''uPMatrix'') False p,
            BindVertexArray (Some (vao (heap w this))),
            DrawElements TRIANGLES (length (indices (mesh (heap w this)))) UNSIGNED_INT 0,
            BindVertexArray None]\<rparr>))"
  by (simp add: RenderObject_render_empty RenderObject_render_draws RenderObject_new_quiet Let_def)

theorem RenderObject_render_noop_witness:
  "indices (mesh (heap page_start 0)) = [] \<and>
   RenderObject_render 0 20 Mat4_create Mat4_create page_start = (Inr (), page_start) \<and>
   faults page_start = [] \<and>
   fst (RenderObject_new \<lparr>positions = [], normals = [], colors = [], indices = []\<rparr> None page_start) = Inr 0 \<and>
   faults sample_world = [] \<and> indices (mesh (heap sample_world 1)) \<noteq> [] \<and>
   RenderObject_render 1 20 Mat4_create Mat4_create sample_world =
     (Inr (), sample_world\<lparr>calls := calls sample_world @
        [GetUniformLocation 20 ''uMMatrix'',
         UniformMatrix4fv (UniformLocation 20 ''uMMatrix'') False
           (Mat4_translate Mat4_create [0, - 0.1, 0]),
         GetUniformLocation 20 ''uVMatrix'',
         UniformMatrix4fv (UniformLocation 20 ''uVMatrix'') False Mat4_create,
         GetUniformLocation 20 ''uPMatrix'',
         UniformMatrix4fv (UniformLocation 20 ''uPMatrix'') False Mat4_create,
         BindVertexArray (Some 5),
         DrawElements TRIANGLES 36 UNSIGNED_INT 0,
         BindVertexArray None]\<rparr>)"
  using RenderObject_render_noop [of page_start 0 20 Mat4_create Mat4_create
      "\<lparr>positions = [], normals = [], colors = [], indices = []\<rparr>" None]
    RenderObject_render_noop [of sample_world 1 20 Mat4_create Mat4_create
      "\<lparr>positions = [], normals = [], colors = [], indices = []\<rparr>" None]
  by (simp add: sample_world_fields box_indices) (simp add: page_start_def no_object_def)

section \<open>Capture\<close>

text \<open>
  C4. When the two backend calls that open \<^verbatim>\<open>capture\<close> complete, the offscreen
  framebuffer is the draw target and the three colour attachments are the draw
  buffers when the callback starts. When the callback returns normally and the
  closing call completes, \<^verbatim>\<open>capture\<close> returns normally, its last call binds the
  default framebuffer (\<^verbatim>\<open>null\<close>), and the default target is the draw target
  afterwards, whatever the callback did, also when it drew nothing.
\<close>

theorem capture_restores:
  assumes "completes 2 w"
    and "cb (w\<lparr>faults := drop 2 (faults w),
               calls := calls w @
                 [BindFramebuffer FRAMEBUFFER (Some (framebuffer fb0)),
                  DrawBuffers [COLOR_ATTACHMENT0, COLOR_ATTACHMENT1, COLOR_ATTACHMENT2]]\<rparr>) = (Inr (), w')"
    and "completes 1 w'"
  shows "draw_target (calls w @
            [BindFramebuffer FRAMEBUFFER (Some (framebuffer fb0)),
             DrawBuffers [COLOR_ATTACHMENT0, COLOR_ATTACHMENT1, COLOR_ATTACHMENT2]]) =
           Some (framebuffer fb0) \<and>
         capture fb0 cb w =
           (Inr (), w'\<lparr>faults := tl (faults w'),
                         calls := calls w' @ [BindFramebuffer FRAMEBUFFER None]\<rparr>) \<and>
         draw_target (calls (snd (capture fb0 cb w))) = None \<and>
         (draw_target (calls w) = None \<longrightarrow>
            draw_target (calls (snd (capture fb0 cb w))) = draw_target (calls w))"
proof -
  let ?c1 = "BindFramebuffer FRAMEBUFFER (Some (framebuffer fb0))"
  let ?c2 = "DrawBuffers [COLOR_ATTACHMENT0, COLOR_ATTACHMENT1, COLOR_ATTACHMENT2]"
  let ?w1 = "w\<lparr>faults := tl (faults w), calls := calls w @ [?c1]\<rparr>"
  have one: "ext ?c1 w = (Inr (), ?w1)"
    using assms(1) by (simp add: ext_completes eval_nat_numeral)
  have "completes 1 ?w1"
    using assms(1) completes_tl [of 1 w] by (simp add: eval_nat_numeral)
  then have two: "ext ?c2 ?w1 =
      (Inr (), w\<lparr>faults := drop 2 (faults w), calls := calls w @ [?c1, ?c2]\<rparr>)"
    by (simp add: ext_completes drop_Suc eval_nat_numeral tl_drop)
  have three: "ext (BindFramebuffer FRAMEBUFFER None) w' =
      (Inr (), w'\<lparr>faults := tl (faults w'), calls := calls w' @ [BindFramebuffer FRAMEBUFFER None]\<rparr>)"
    using assms(3) by (simp add: ext_completes)
  have run: "capture fb0 cb w =
      (Inr (), w'\<lparr>faults := tl (faults w'), calls := calls w' @ [BindFramebuffer FRAMEBUFFER None]\<rparr>)"
    by (simp add: capture_def bind_def ret_def one two assms(2) three)
  have bound: "draw_target (calls w @ [?c1, ?c2]) = Some (framebuffer fb0)"
    by (simp add: draw_target_def bound_after_append)
  have restored: "draw_target (calls (snd (capture fb0 cb w))) = None"
    by (simp add: run draw_target_def bound_after_append)
  from bound run restored show ?thesis by simp
qed

theorem capture_restores_witness:
  "completes 2 page_start \<and>
   capture sample_fb (ret ()) page_start =
     (Inr (), page_start\<lparr>calls :=
        [BindFramebuffer FRAMEBUFFER (Some 30),
         DrawBuffers [COLOR_ATTACHMENT0, COLOR_ATTACHMENT1, COLOR_ATTACHMENT2],
         BindFramebuffer FRAMEBUFFER None]\<rparr>) \<and>
   draw_target (calls (snd (capture sample_fb (ret ()) page_start))) = None"
  using capture_restores [of page_start "ret ()" sample_fb
      "page_start\<lparr>calls :=
         [BindFramebuffer FRAMEBUFFER (Some 30),
          DrawBuffers [COLOR_ATTACHMENT0, COLOR_ATTACHMENT1, COLOR_ATTACHMENT2]]\<rparr>"]
  by (simp add: page_start_def sample_fb_def completes_def ret_def draw_target_def)

text \<open>
  C10. When the callback throws, \<^verbatim>\<open>capture\<close> throws the same error and leaves the
  world as the callback left it: the call that binds the default framebuffer is
  not made. When the callback itself bound no framebuffer before it threw, the
  offscreen framebuffer is still the draw target.
\<close>

theorem capture_propagates:
  assumes "completes 2 w"
    and "cb (w\<lparr>faults := drop 2 (faults w),
               calls := calls w @
                 [BindFramebuffer FRAMEBUFFER (Some (framebuffer fb0)),
                  DrawBuffers [COLOR_ATTACHMENT0, COLOR_ATTACHMENT1, COLOR_ATTACHMENT2]]\<rparr>) = (Inl e, w')"
  shows "capture fb0 cb w = (Inl e, w') \<and>
         (calls w' = calls w @
            [BindFramebuffer FRAMEBUFFER (Some (framebuffer fb0)),
             DrawBuffers [COLOR_ATTACHMENT0, COLOR_ATTACHMENT1, COLOR_ATTACHMENT2]] @ cs \<and>
          \<not> list_ex binds_framebuffer cs \<longrightarrow>
          draw_target (calls (snd (capture fb0 cb w))) = Some (framebuffer fb0))"
proof -
  let ?c1 = "BindFramebuffer FRAMEBUFFER (Some (framebuffer fb0))"
  let ?c2 = "DrawBuffers [COLOR_ATTACHMENT0, COLOR_ATTACHMENT1, COLOR_ATTACHMENT2]"
  let ?w1 = "w\<lparr>faults := tl (faults w), calls := calls w @ [?c1]\<rparr>"
  have one: "ext ?c1 w = (Inr (), ?w1)"
    using assms(1) by (simp add: ext_completes eval_nat_numeral)
  have "completes 1 ?w1"
    using assms(1) completes_tl [of 1 w] by (simp add: eval_nat_numeral)
  then have two: "ext ?c2 ?w1 =
      (Inr (), w\<lparr>faults := drop 2 (faults w), calls := calls w @ [?c1, ?c2]\<rparr>)"
    by (simp add: ext_completes drop_Suc eval_nat_numeral tl_drop)
  have run: "capture fb0 cb w = (Inl e, w')"
    by (simp add: capture_def bind_def one two assms(2))
  have "draw_target (calls w') = Some (framebuffer fb0)"
    if "calls w' = calls w @ [?c1, ?c2] @ cs" and "\<not> list_ex binds_framebuffer cs"
    using that by (simp add: draw_target_def bound_after_append bound_after_unbound)
  with run show ?thesis by simp
qed

theorem capture_propagates_witness:
  "completes 2 (page_start\<lparr>faults := [None, None, None, None, Some (JsError ''context lost'')]\<rparr>) \<and>
   capture sample_fb (renderGeometry sample_scene near far)
      (page_start\<lparr>faults := [None, None, None, None, Some (JsError ''context lost'')]\<rparr>) =
     (Inl (JsError ''context lost''),
      page_start\<lparr>calls :=
        [BindFramebuffer FRAMEBUFFER (Some 30),
         DrawBuffers [COLOR_ATTACHMENT0, COLOR_ATTACHMENT1, COLOR_ATTACHMENT2],
         Enable DEPTH_TEST, Enable CULL_FACE]\<rparr>) \<and>
   draw_target (calls (snd (capture sample_fb (renderGeometry sample_scene near far)
      (page_start\<lparr>faults := [None, None, None, None, Some (JsError ''context lost'')]\<rparr>)))) = Some 30"
  using capture_propagates [of "page_start\<lparr>faults := [None, None, None, None, Some (JsError ''context lost'')]\<rparr>"
      "renderGeometry sample_scene near far" sample_fb "JsError ''context lost''"
      "page_start\<lparr>calls :=
        [BindFramebuffer FRAMEBUFFER (Some 30),
         DrawBuffers [COLOR_ATTACHMENT0, COLOR_ATTACHMENT1, COLOR_ATTACHMENT2],
         Enable DEPTH_TEST, Enable CULL_FACE]\<rparr>" "[Enable DEPTH_TEST, Enable CULL_FACE]"]
  by (simp add: page_start_def sample_fb_def completes_def renderGeometry_def bind_def ext_def
        binds_framebuffer_def draw_target_def)

section \<open>The geometry pass\<close>

text \<open>
  C8. On a backend whose calls complete and with no object listed twice, one
  geometry pass leaves the model matrix of the floor as it was and replaces
  the model matrix \<open>m\<close> of every other listed object by
  \<^verbatim>\<open>rotateX(rotateZ(rotateY(m, 0.4 deg), 0.25 deg), 0.6 deg)\<close>, the angles handed
  to the library being \<open>\<pi> / 180\<close> times 0.4, 0.25 and 0.6; after the seven
  calls that set the pass up, the objects are rendered in order, each with its
  matrix as it is after the pass, that is, already rotated.
\<close>

theorem renderGeometry_rotates:
  assumes "faults w = []" and "distinct (objects sc)"
  shows "fst (renderGeometry sc near0 far0 w) = Inr () \<and>
    mMatrix (heap (snd (renderGeometry sc near0 far0 w)) (floor_obj sc)) =
      mMatrix (heap w (floor_obj sc)) \<and>
    (\<forall>r \<in> set (objects sc). r \<noteq> floor_obj sc \<longrightarrow>
      mMatrix (heap (snd (renderGeometry sc near0 far0 w)) r) =
        Mat4_rotateX (Mat4_rotateZ (Mat4_rotateY (mMatrix (heap w r)) (pi / 180 * 0.4))
          (pi / 180 * 0.25)) (pi / 180 * 0.6)) \<and>
    drop (length (calls w) + 7) (calls (snd (renderGeometry sc near0 far0 w))) =
      concat (map (\<lambda>r. render_calls (program sc) (heap (snd (renderGeometry sc near0 far0 w)) r)
                          (vMatrix (snd (renderGeometry sc near0 far0 w)))
                          (pMatrix (snd (renderGeometry sc near0 far0 w))))
                (objects sc))"
  by (simp add: renderGeometry_quiet [OF assms] turned_def spin_def)

theorem renderGeometry_rotates_witness:
  "faults sample_world = [] \<and> distinct (objects sample_scene) \<and>
   mMatrix (heap (snd (renderGeometry sample_scene near far sample_world)) 0) =
     Mat4_translate Mat4_create [0, - 0.5, 0] \<and>
   mMatrix (heap (snd (renderGeometry sample_scene near far sample_world)) 1) =
     Mat4_rotateX (Mat4_rotateZ (Mat4_rotateY (Mat4_translate Mat4_create [0, - 0.1, 0])
       (pi / 180 * 0.4)) (pi / 180 * 0.25)) (pi / 180 * 0.6)"
  using renderGeometry_rotates [of sample_world sample_scene near far]
  by (simp add: sample_world_fields sample_scene_def)

section \<open>The composite pass\<close>

text \<open>
  C2, as stated, on the sample page: the fourth \<^verbatim>\<open>drawArrays\<close> of the composite
  pass shows the depth texture with the single-channel flag true and the
  use-linear flag false, not true.
\<close>

theorem render_depth_view_counterexample:
  "texture_draws watch_start
     (drop (length (calls (snd (capture (fb sample_scene)
              (renderGeometry sample_scene near far) sample_world))))
        (calls (snd (render sample_scene sample_world)))) ! 3 =
     ((240, 420, 80, 60), Some 34, JBoolean True, JBoolean False) \<and>
   snd (snd (snd (texture_draws watch_start
     (drop (length (calls (snd (capture (fb sample_scene)
              (renderGeometry sample_scene near far) sample_world))))
        (calls (snd (render sample_scene sample_world)))) ! 3))) \<noteq> JBoolean True"
  using render_draws [of sample_world sample_scene]
  by (simp add: sample_world_fields sample_scene_def sample_fb_def)

text \<open>
  C2, amended. On a backend whose calls complete, the composite pass of a
  frame makes five \<^verbatim>\<open>drawArrays\<close> calls after the capture: the diffuse, normal
  and position textures in three 80 by 60 viewports along the top, both flags
  false; the depth texture in the fourth, with the single-channel flag true and
  the use-linear flag false (raw depth, not linearized); and the diffuse texture
  over the whole 640 by 480 surface, both flags false.
\<close>

theorem render_debug_views:
  assumes "faults w = []"
  shows "fst (render sc w) = Inr () \<and>
    texture_draws watch_start
      (drop (length (calls (snd (capture (fb sc) (renderGeometry sc near far) w))))
         (calls (snd (render sc w)))) =
      [((0, 420, 80, 60), Some (diffuseBuf (fb sc)), JBoolean False, JBoolean False),
       ((80, 420, 80, 60), Some (normalBuf (fb sc)), JBoolean False, JBoolean False),
       ((160, 420, 80, 60), Some (positionBuf (fb sc)), JBoolean False, JBoolean False),
       ((240, 420, 80, 60), Some (depthBuf (fb sc)), JBoolean True, JBoolean False),
       ((0, 0, 640, 480), Some (diffuseBuf (fb sc)), JBoolean False, JBoolean False)]"
  using assms by (rule render_draws)

theorem render_debug_views_witness:
  "faults sample_world = [] \<and>
   fst (render sample_scene sample_world) = Inr () \<and>
   texture_draws watch_start
      (drop (length (calls (snd (capture (fb sample_scene)
               (renderGeometry sample_scene near far) sample_world))))
         (calls (snd (render sample_scene sample_world)))) =
      [((0, 420, 80, 60), Some 31, JBoolean False, JBoolean False),
       ((80, 420, 80, 60), Some 32, JBoolean False, JBoolean False),
       ((160, 420, 80, 60), Some 33, JBoolean False, JBoolean False),
       ((240, 420, 80, 60), Some 34, JBoolean True, JBoolean False),
       ((0, 0, 640, 480), Some 31, JBoolean False, JBoolean False)]"
  using render_debug_views [of sample_world sample_scene]
  by (simp add: sample_world_fields sample_scene_def sample_fb_def)

section \<open>The animation loop and its errors\<close>

text \<open>
  C9. The frame is what \<^verbatim>\<open>loop\<close> runs before it registers itself again:
  \<^verbatim>\<open>stats.begin()\<close>, \<^verbatim>\<open>render()\<close>, \<^verbatim>\<open>stats.end()\<close>. When the frame throws, \<^verbatim>\<open>loop\<close>
  returns normally with the error appended to the console and with no new
  registration. When the frame returns, \<^verbatim>\<open>loop\<close> registers exactly one new
  callback. When the host runs the only pending registration and that frame
  throws, nothing is pending afterwards and no later refresh changes the world:
  no further frame is rendered. And a page with at most one registration
  pending, as it is after \<^verbatim>\<open>onload\<close>, has at most one after every refresh.
\<close>

theorem loop_halts_on_error:
  "(seq [stats StatsBegin, render sc, stats StatsEnd] w = (Inl e, w') \<longrightarrow>
      loop sc w = (Inr (), w'\<lparr>console := console w @ [e]\<rparr>) \<and>
      pending (snd (loop sc w)) = pending w) \<and>
   (seq [stats StatsBegin, render sc, stats StatsEnd] w = (Inr (), w') \<longrightarrow>
      fst (loop sc w) = Inr () \<and>
      pending (snd (loop sc w)) = pending w @ [next_request w] \<and>
      console (snd (loop sc w)) = console w) \<and>
   (pending w0 = [r] \<and>
    fst (seq [stats StatsBegin, render sc, stats StatsEnd] (w0\<lparr>pending := []\<rparr>)) = Inl e \<longrightarrow>
      pending (animation_frame sc w0) = [] \<and>
      (\<forall>n. animation_frames sc n (animation_frame sc w0) = animation_frame sc w0)) \<and>
   (length (pending w0) \<le> 1 \<longrightarrow> length (pending (animation_frame sc w0)) \<le> 1)"
proof (intro conjI impI)
  assume run: "seq [stats StatsBegin, render sc, stats StatsEnd] w = (Inl e, w')"
  from loop_caught [OF run]
  show "loop sc w = (Inr (), w'\<lparr>console := console w @ [e]\<rparr>)"
    and "pending (snd (loop sc w)) = pending w"
    by simp_all
next
  assume run: "seq [stats StatsBegin, render sc, stats StatsEnd] w = (Inr (), w')"
  from tameD(1) [OF tame_frame run] have "console w' = console w"
    by (simp add: host_kept_def)
  with loop_rescheduled [OF run]
  show "fst (loop sc w) = Inr ()"
    and "pending (snd (loop sc w)) = pending w @ [next_request w]"
    and "console (snd (loop sc w)) = console w"
    by simp_all
next
  assume a: "pending w0 = [r] \<and>
    fst (seq [stats StatsBegin, render sc, stats StatsEnd] (w0\<lparr>pending := []\<rparr>)) = Inl e"
  obtain w1 where run: "seq [stats StatsBegin, render sc, stats StatsEnd] (w0\<lparr>pending := []\<rparr>) = (Inl e, w1)"
    using a by (cases "seq [stats StatsBegin, render sc, stats StatsEnd] (w0\<lparr>pending := []\<rparr>)") simp
  from loop_caught [OF run] a
  have idle: "pending (animation_frame sc w0) = []"
    by (simp add: animation_frame_def)
  then show "pending (animation_frame sc w0) = []" .
  from idle show "\<forall>n. animation_frames sc n (animation_frame sc w0) = animation_frame sc w0"
    by (simp add: idle_frames)
next
  assume "length (pending w0) \<le> 1"
  then show "length (pending (animation_frame sc w0)) \<le> 1"
    by (rule one_registration)
qed

theorem loop_halts_on_error_witness:
  "pending failing_world = [0] \<and>
   fst (seq [stats StatsBegin, render sample_scene, stats StatsEnd]
          (failing_world\<lparr>pending := []\<rparr>)) = Inl (JsError ''context lost'') \<and>
   console (snd (loop sample_scene (failing_world\<lparr>pending := []\<rparr>))) = [JsError ''context lost''] \<and>
   pending (snd (loop sample_scene (failing_world\<lparr>pending := []\<rparr>))) = [] \<and>
   pending (animation_frame sample_scene failing_world) = [] \<and>
   animation_frames sample_scene 3 (animation_frame sample_scene failing_world) =
     animation_frame sample_scene failing_world \<and>
   fst (seq [stats StatsBegin, render sample_scene, stats StatsEnd]
          (running_world\<lparr>pending := []\<rparr>)) = Inr () \<and>
   pending (snd (loop sample_scene (running_world\<lparr>pending := []\<rparr>))) = [1]"
proof -
  let ?e = "JsError ''context lost''"
  let ?frame = "seq [stats StatsBegin, render sample_scene, stats StatsEnd]"
  let ?fw = "failing_world\<lparr>pending := []\<rparr>"
  let ?fw' = "failing_world\<lparr>pending := [], faults := [],
      calls := calls sample_world @
        [StatsBegin,
         BindFramebuffer FRAMEBUFFER (Some 30),
         DrawBuffers [COLOR_ATTACHMENT0, COLOR_ATTACHMENT1, COLOR_ATTACHMENT2],
         Enable DEPTH_TEST, Enable CULL_FACE]\<rparr>"
  let ?rw = "running_world\<lparr>pending := []\<rparr>"
  have p: "pending failing_world = [0]"
    by (simp add: failing_world_def running_world_def)
  have fail: "?frame ?fw = (Inl ?e, ?fw')"
    by (simp add: failing_world_def running_world_def render_def capture_def renderGeometry_def
        bind_def ext_def Let_def sample_scene_def sample_fb_def)
  obtain r1 w1 where run: "?frame ?rw = (r1, w1)"
    by (cases "?frame ?rw")
  have "quiet ?rw"
    by (simp add: quiet_def running_world_def sample_world_fields)
  with tameD(2) [OF tame_frame run] have "returned r1" by simp
  then have r1: "r1 = Inr ()" by (cases r1) (simp_all add: returned_def)
  note caught = loop_halts_on_error [where sc = sample_scene and w = ?fw and e = ?e
      and w' = ?fw' and ?w0.0 = failing_world and r = 0]
  note again = loop_halts_on_error [where sc = sample_scene and w = ?rw and e = ?e
      and w' = w1 and ?w0.0 = failing_world and r = 0]
  from caught fail p
  have a: "console (snd (loop sample_scene ?fw)) = [?e]"
    and b: "pending (snd (loop sample_scene ?fw)) = []"
    and c: "pending (animation_frame sample_scene failing_world) = []"
    and d: "animation_frames sample_scene 3 (animation_frame sample_scene failing_world) =
      animation_frame sample_scene failing_world"
    by (simp_all add: failing_world_def running_world_def sample_world_fields)
  from again run r1
  have e: "pending (snd (loop sample_scene ?rw)) = [1]"
    by (simp add: running_world_def sample_world_fields)
  from p fail a b c d run r1 e show ?thesis by simp
qed

section \<open>The composite shader\<close>

text \<open>
  C5. With the single-channel flag and the use-linear flag both true the
  composite fragment shader writes \<open>(L, L, L, 1)\<close>, where
  \<open>L = (2 near) / (far + near - c (far - near))\<close> and \<open>c\<close> is the red channel of
  the sample; with near 0.8 and far 100, \<open>L\<close> is 1 at \<open>c = 1\<close> and 1.6 / 100.8
  at \<open>c = 0\<close>. With the single-channel flag false it writes the sample itself.
\<close>

theorem fragment_source2_output:
  "fragment_source2 uSampler True True uNear uFar vUV =
     Vec4 ((2 * uNear) / (uFar + uNear - red (uSampler vUV) * (uFar - uNear)))
          ((2 * uNear) / (uFar + uNear - red (uSampler vUV) * (uFar - uNear)))
          ((2 * uNear) / (uFar + uNear - red (uSampler vUV) * (uFar - uNear))) 1 \<and>
   fragment_source2 (\<lambda>uv. Vec4 1 g1 b1 a1) True True 0.8 100 vUV = Vec4 1 1 1 1 \<and>
   fragment_source2 (\<lambda>uv. Vec4 0 g1 b1 a1) True True 0.8 100 vUV =
     Vec4 (1.6 / 100.8) (1.6 / 100.8) (1.6 / 100.8) 1 \<and>
   fragment_source2 uSampler False uUseLinear uNear uFar vUV = uSampler vUV"
  by (simp add: fragment_source2_def Let_def)

end
